theory Spec2Isabelle
  imports Complex_Main "HOL-Library.Product_Lexorder" "HOL-Library.Option_ord"
begin

section \<open>Data model\<close>

text \<open>
  Embedding of \<^verbatim>\<open>app/services/progress_service.py\<close> with the tables of
  \<^verbatim>\<open>app/models/database.py\<close> and the schemas of \<^verbatim>\<open>app/schemas/__init__.py\<close>.

  A calendar date is the triple (year, month, day), ordered lexicographically; a
  \<^verbatim>\<open>datetime\<close> is a clock reading. \<^verbatim>\<open>date.today()\<close> and
  \<^verbatim>\<open>datetime.utcnow()\<close> are arguments of the operations that read them.
\<close>

type_synonym date = "nat \<times> nat \<times> nat"
type_synonym datetime = nat

text \<open>
  A \<^verbatim>\<open>Decimal\<close> is the rational number it denotes. A Python \<^verbatim>\<open>float\<close> is
  given by two rationals: \<open>float_value\<close>, the exact value of the binary double, which is
  what a comparison between a \<^verbatim>\<open>Decimal\<close> and a \<^verbatim>\<open>float\<close> looks at, and
  \<open>float_str\<close>, the number that \<^verbatim>\<open>str\<close> prints for it, which is what
  \<^verbatim>\<open>Decimal(str(x))\<close> denotes. For \<^verbatim>\<open>2.5\<close> both are \<open>5/2\<close>; for
  \<^verbatim>\<open>2.3\<close> the first is \<open>2589569785738035 / 2^50\<close> and the second \<open>23/10\<close>.
  Nothing relates the two components, so a statement about every \<open>pyfloat\<close> covers
  every double.
\<close>

datatype pyfloat = Float (float_value: rat) (float_str: rat)

definition Decimal_str :: "pyfloat \<Rightarrow> rat" where
  "Decimal_str x = float_str x"

text \<open>Table \<^verbatim>\<open>user_words\<close>, primary key \<open>(user_id, word_id)\<close>.\<close>

record user_word =
  user_id :: string
  word_id :: string
  mastery_level :: rat
  repetitions :: int
  ease_factor :: rat
  last_review :: "date option"
  next_review :: "date option"
  seen_count :: int
  correct_count :: int
  updated_at :: datetime

text \<open>Table \<^verbatim>\<open>users\<close>: the columns this service reads or writes.\<close>

record user =
  u_id :: string
  total_words_learned :: int
  current_streak :: int
  max_streak :: int
  last_active_date :: "date option"
  u_updated_at :: datetime

text \<open>Table \<^verbatim>\<open>sessions\<close>; the auto-increment id is assigned by the database.\<close>

record practice_session =
  s_user_id :: string
  practice_type :: string
  words_count :: int
  s_correct_count :: int
  accuracy :: rat
  duration_seconds :: int
  started_at :: "datetime option"
  completed_at :: "datetime option"

text \<open>
  The SQLAlchemy session over the database (\<^verbatim>\<open>autoflush=False\<close>): the rows of the
  three tables, where an attribute assignment on a loaded row is seen by every later query
  that returns the row, and the objects handed to \<^verbatim>\<open>db.add\<close> /
  \<^verbatim>\<open>db.add_all\<close>, which no query sees before the commit.
\<close>

record db =
  users :: "user list"
  user_words :: "user_word list"
  db_sessions :: "practice_session list"
  new_user_words :: "user_word list"
  new_sessions :: "practice_session list"

datatype error = OperationalError | IntegrityError | InvalidOperation

text \<open>\<^verbatim>\<open>WordProgressBase\<close>, an entry of a sync batch, after pydantic validation.\<close>

record word_progress =
  wp_word_id :: string
  wp_mastery_level :: pyfloat
  wp_repetitions :: int
  wp_ease_factor :: pyfloat
  wp_last_review :: "date option"
  wp_next_review :: "date option"
  wp_seen_count :: int
  wp_correct_count :: int

text \<open>
  A stats dictionary at its documented types: the integer-valued keys, and the value of
  the key \<^verbatim>\<open>last_active_date\<close> when present. A value read by \<^verbatim>\<open>_parse_date\<close>
  or \<^verbatim>\<open>_parse_datetime\<close> is falsy (\<^verbatim>\<open>None\<close>, the empty string), a text
  that \<^verbatim>\<open>fromisoformat\<close> reads, or a text on which it raises \<^verbatim>\<open>ValueError\<close>.
\<close>

datatype 'a iso_arg = Falsy | Iso 'a | NotIso

record stats_dict =
  int_items :: "(string \<times> int) list"
  last_active_date_item :: "date iso_arg option"

definition stats_truthy :: "stats_dict \<Rightarrow> bool" where
  "stats_truthy s = (int_items s \<noteq> [] \<or> last_active_date_item s \<noteq> None)"

definition stats_get :: "stats_dict \<Rightarrow> string \<Rightarrow> int \<Rightarrow> int" where
  "stats_get s k dflt = (case map_of (int_items s) k of None \<Rightarrow> dflt | Some v \<Rightarrow> v)"

text \<open>\<^verbatim>\<open>ProgressSyncData\<close>; its \<^verbatim>\<open>sessions\<close> list is never read by the service.\<close>

record progress_sync_data =
  words :: "word_progress list"
  stats :: stats_dict

record sync_conflict =
  c_word_id :: string
  server_mastery :: rat
  client_mastery :: pyfloat
  resolution :: string

record sync_result =
  updated_words :: nat
  conflicts :: "sync_conflict list"
  sync_timestamp :: datetime

section \<open>Merge engine: \<^verbatim>\<open>sync_user_progress\<close>\<close>

fun update_first :: "('a \<Rightarrow> bool) \<Rightarrow> ('a \<Rightarrow> 'a) \<Rightarrow> 'a list \<Rightarrow> 'a list" where
  "update_first P f [] = []"
| "update_first P f (x # xs) = (if P x then f x # xs else x # update_first P f xs)"

definition is_user_word :: "string \<Rightarrow> string \<Rightarrow> user_word \<Rightarrow> bool" where
  "is_user_word uid wid r = (user_id r = uid \<and> word_id r = wid)"

text \<open>
  \<^verbatim>\<open>db.query(UserWord).filter(user_id == .., word_id == ..).first()\<close>: the pending
  objects are not searched.
\<close>

definition query_user_word :: "db \<Rightarrow> string \<Rightarrow> string \<Rightarrow> user_word option" where
  "query_user_word d uid wid = find (is_user_word uid wid) (user_words d)"

definition query_user :: "db \<Rightarrow> string \<Rightarrow> user option" where
  "query_user d uid = find (\<lambda>u. u_id u = uid) (users d)"

definition differs :: "user_word \<Rightarrow> word_progress \<Rightarrow> bool" where
  "differs e w =
     (mastery_level e \<noteq> float_value (wp_mastery_level w) \<or> repetitions e \<noteq> wp_repetitions w)"

definition conflict_of :: "user_word \<Rightarrow> word_progress \<Rightarrow> sync_conflict" where
  "conflict_of e w =
     \<lparr>c_word_id = wp_word_id w, server_mastery = mastery_level e,
      client_mastery = wp_mastery_level w, resolution = ''client_wins''\<rparr>"

definition client_wins :: "datetime \<Rightarrow> word_progress \<Rightarrow> user_word \<Rightarrow> user_word" where
  "client_wins now w e =
     e\<lparr>mastery_level := Decimal_str (wp_mastery_level w),
       repetitions := wp_repetitions w,
       ease_factor := Decimal_str (wp_ease_factor w),
       last_review := wp_last_review w,
       next_review := wp_next_review w,
       seen_count := wp_seen_count w,
       correct_count := wp_correct_count w,
       updated_at := now\<rparr>"

text \<open>
  The new row of the \<^verbatim>\<open>else\<close> branch; \<open>now\<close> is also the server default
  of its \<^verbatim>\<open>updated_at\<close>.
\<close>

definition new_word :: "datetime \<Rightarrow> string \<Rightarrow> word_progress \<Rightarrow> user_word" where
  "new_word now uid w =
     \<lparr>user_id = uid, word_id = wp_word_id w,
      mastery_level = Decimal_str (wp_mastery_level w),
      repetitions = wp_repetitions w,
      ease_factor = Decimal_str (wp_ease_factor w),
      last_review = wp_last_review w,
      next_review = wp_next_review w,
      seen_count = wp_seen_count w,
      correct_count = wp_correct_count w,
      updated_at = now\<rparr>"

text \<open>
  The body of the loop over \<^verbatim>\<open>sync_data.words\<close>, inside its own
  \<^verbatim>\<open>try\<close>. Every statement that can raise for a validated entry comes before
  the first write: the lookup itself (the persistence layer fails) and
  \<^verbatim>\<open>float(existing_word.mastery_level)\<close> on a row whose \<open>mastery_level\<close> is
  \<^verbatim>\<open>NULL\<close>, a row that no writer of this service produces and that the table
  type here leaves out. \<open>query_raises\<close> says for which entries the body raises. The
  result is the session after the entry and the conflicts it appends.
\<close>

definition sync_word ::
  "datetime \<Rightarrow> (word_progress \<Rightarrow> bool) \<Rightarrow> db \<Rightarrow> string \<Rightarrow> word_progress
    \<Rightarrow> error + (db \<times> sync_conflict list)" where
  "sync_word now query_raises d uid w =
     (if query_raises w then Inl OperationalError
      else case query_user_word d uid (wp_word_id w) of
        Some existing_word \<Rightarrow>
          Inr (d\<lparr>user_words :=
                   update_first (is_user_word uid (wp_word_id w)) (client_wins now w) (user_words d)\<rparr>,
               if differs existing_word w then [conflict_of existing_word w] else [])
      | None \<Rightarrow>
          Inr (d\<lparr>new_user_words := new_user_words d @ [new_word now uid w]\<rparr>, []))"

text \<open>
  The loop, with its accumulators \<^verbatim>\<open>conflicts\<close> and \<^verbatim>\<open>updated_words\<close>:
  \<^verbatim>\<open>except Exception: ... continue\<close> goes on with the next entry.
\<close>

fun sync_words ::
  "datetime \<Rightarrow> (word_progress \<Rightarrow> bool) \<Rightarrow> string \<Rightarrow> word_progress list
    \<Rightarrow> db \<times> sync_conflict list \<times> nat \<Rightarrow> db \<times> sync_conflict list \<times> nat" where
  "sync_words now query_raises uid [] acc = acc"
| "sync_words now query_raises uid (w # ws) (d, cs, n) =
     (case sync_word now query_raises d uid w of
        Inl e \<Rightarrow> sync_words now query_raises uid ws (d, cs, n)
      | Inr (d', c) \<Rightarrow> sync_words now query_raises uid ws (d', cs @ c, n + 1))"

text \<open>
  The stats block: \<^verbatim>\<open>if user and sync_data.stats\<close>.
\<close>

definition sync_stats :: "date \<Rightarrow> datetime \<Rightarrow> stats_dict \<Rightarrow> user \<Rightarrow> user" where
  "sync_stats today now s u =
     u\<lparr>total_words_learned := stats_get s ''total_words_learned'' (total_words_learned u),
       current_streak := stats_get s ''current_streak'' (current_streak u),
       max_streak := max (max_streak u) (stats_get s ''max_streak'' 0),
       last_active_date := Some today,
       u_updated_at := now\<rparr>"

definition sync_user_stats :: "date \<Rightarrow> datetime \<Rightarrow> db \<Rightarrow> string \<Rightarrow> stats_dict \<Rightarrow> db" where
  "sync_user_stats today now d uid s =
     (case query_user d uid of
        Some u \<Rightarrow>
          if stats_truthy s
          then d\<lparr>users := update_first (\<lambda>u. u_id u = uid) (sync_stats today now s) (users d)\<rparr>
          else d
      | None \<Rightarrow> d)"

text \<open>
  \<^verbatim>\<open>db.commit()\<close> flushes the pending objects. Two rows of \<^verbatim>\<open>user_words\<close>
  with one primary key make the flush raise \<^verbatim>\<open>IntegrityError\<close>; this is the
  failure of the flush that the embedding covers.
\<close>

definition word_key :: "user_word \<Rightarrow> string \<times> string" where
  "word_key r = (user_id r, word_id r)"

definition commit :: "db \<Rightarrow> error + db" where
  "commit d =
     (if distinct (map word_key (user_words d @ new_user_words d))
      then Inr (d\<lparr>user_words := user_words d @ new_user_words d,
                 db_sessions := db_sessions d @ new_sessions d,
                 new_user_words := [], new_sessions := []\<rparr>)
      else Inl IntegrityError)"

text \<open>
  The whole operation. An exception outside the per-entry \<^verbatim>\<open>try\<close> rolls the
  transaction back and is raised again: the result is \<open>Inl\<close> and the database is the one
  the caller had.
\<close>

definition sync_user_progress ::
  "date \<Rightarrow> datetime \<Rightarrow> (word_progress \<Rightarrow> bool) \<Rightarrow> db \<Rightarrow> string \<Rightarrow> progress_sync_data
    \<Rightarrow> error + (db \<times> sync_result)" where
  "sync_user_progress today now query_raises d uid sync_data =
     (case sync_words now query_raises uid (words sync_data) (d, [], 0) of
        (d1, cs, n) \<Rightarrow>
          (case commit (sync_user_stats today now d1 uid (stats sync_data)) of
             Inl e \<Rightarrow> Inl e
           | Inr d2 \<Rightarrow> Inr (d2, \<lparr>updated_words = n, conflicts = cs, sync_timestamp = now\<rparr>)))"

section \<open>Review selector: \<^verbatim>\<open>get_words_for_review\<close>\<close>

text \<open>
  The two \<^verbatim>\<open>filter\<close> calls of the query. The production database is MySQL, which
  puts \<^verbatim>\<open>NULL\<close> first in an ascending \<^verbatim>\<open>ORDER BY\<close>, as the order on
  \<open>date option\<close> does with \<open>None\<close>. SQL leaves the order of rows with equal keys
  open; the model keeps them in table order. The limit is a natural number.
\<close>

definition is_due :: "date \<Rightarrow> string \<Rightarrow> user_word \<Rightarrow> bool" where
  "is_due today uid r =
     ((user_id r = uid \<and> mastery_level r < 4) \<and>
      (case next_review r of None \<Rightarrow> True | Some nr \<Rightarrow> nr \<le> today))"

definition review_order :: "user_word \<Rightarrow> rat \<times> date option" where
  "review_order r = (mastery_level r, last_review r)"

definition review_query :: "date \<Rightarrow> db \<Rightarrow> string \<Rightarrow> nat \<Rightarrow> user_word list" where
  "review_query today d uid limit =
     take limit (sort_key review_order (filter (is_due today uid) (user_words d)))"

text \<open>
  The dictionaries returned: \<^verbatim>\<open>float(word.mastery_level)\<close> is kept as the decimal
  it is taken from, \<^verbatim>\<open>isoformat()\<close> as the date it prints.
\<close>

record review_item =
  ri_word_id :: string
  ri_mastery_level :: rat
  ri_last_review :: "date option"
  ri_seen_count :: int
  ri_repetitions :: int

definition review_item_of :: "user_word \<Rightarrow> review_item" where
  "review_item_of r =
     \<lparr>ri_word_id = word_id r, ri_mastery_level = mastery_level r,
      ri_last_review = last_review r, ri_seen_count = seen_count r,
      ri_repetitions = repetitions r\<rparr>"

definition get_words_for_review :: "date \<Rightarrow> db \<Rightarrow> string \<Rightarrow> nat \<Rightarrow> review_item list" where
  "get_words_for_review today d uid limit = map review_item_of (review_query today d uid limit)"

section \<open>Trial importer: \<^verbatim>\<open>import_trial_progress\<close>\<close>

text \<open>
  The trial payload is an unvalidated \<^verbatim>\<open>Dict[str, Any]\<close>. An entry is a dictionary
  in which every key may be missing (\<open>None\<close>). The values that go through
  \<^verbatim>\<open>Decimal(str(..))\<close> are JSON scalars other than text: \<^verbatim>\<open>str\<close> of
  \<^verbatim>\<open>None\<close>, \<^verbatim>\<open>True\<close> or \<^verbatim>\<open>False\<close> is no decimal literal and
  \<^verbatim>\<open>Decimal\<close> raises \<^verbatim>\<open>InvalidOperation\<close>; an \<^verbatim>\<open>int\<close> is
  converted exactly. The other keys are taken at their documented types.
\<close>

datatype pyval = PNone | PBool bool | PInt int | PFloat pyfloat

fun Decimal_str_any :: "pyval \<Rightarrow> error + rat" where
  "Decimal_str_any PNone = Inl InvalidOperation"
| "Decimal_str_any (PBool b) = Inl InvalidOperation"
| "Decimal_str_any (PInt n) = Inr (of_int n)"
| "Decimal_str_any (PFloat x) = Inr (Decimal_str x)"

definition dict_get :: "'a option \<Rightarrow> 'a \<Rightarrow> 'a" where
  "dict_get v dflt = (case v of None \<Rightarrow> dflt | Some x \<Rightarrow> x)"

fun parse_date :: "date iso_arg option \<Rightarrow> date option" where
  "parse_date None = None"
| "parse_date (Some Falsy) = None"
| "parse_date (Some (Iso dt)) = Some dt"
| "parse_date (Some NotIso) = None"

fun parse_datetime :: "datetime iso_arg option \<Rightarrow> datetime option" where
  "parse_datetime None = None"
| "parse_datetime (Some Falsy) = None"
| "parse_datetime (Some (Iso dt)) = Some dt"
| "parse_datetime (Some NotIso) = None"

record trial_word =
  tw_word_id :: "string option"
  tw_mastery_level :: "pyval option"
  tw_repetitions :: "int option"
  tw_ease_factor :: "pyval option"
  tw_last_review :: "date iso_arg option"
  tw_next_review :: "date iso_arg option"
  tw_seen_count :: "int option"
  tw_correct_count :: "int option"

record trial_session =
  ts_practice_type :: "string option"
  ts_words_count :: "int option"
  ts_correct_count :: "int option"
  ts_accuracy :: "pyval option"
  ts_duration_seconds :: "int option"
  ts_started_at :: "datetime iso_arg option"
  ts_completed_at :: "datetime iso_arg option"

record trial_payload =
  trial_words :: "trial_word list"
  trial_sessions :: "trial_session list"
  trial_stats :: stats_dict

text \<open>
  The constructor call \<^verbatim>\<open>UserWord(...)\<close> inside the \<^verbatim>\<open>try\<close>; \<open>now\<close> is the
  server default of \<^verbatim>\<open>updated_at\<close>.
\<close>

definition build_user_word :: "datetime \<Rightarrow> string \<Rightarrow> trial_word \<Rightarrow> error + user_word" where
  "build_user_word now uid word_data =
     (case Decimal_str_any (dict_get (tw_mastery_level word_data) (PFloat (Float 0 0))) of
        Inl e \<Rightarrow> Inl e
      | Inr m \<Rightarrow>
          (case Decimal_str_any (dict_get (tw_ease_factor word_data) (PFloat (Float (5/2) (5/2)))) of
             Inl e \<Rightarrow> Inl e
           | Inr ef \<Rightarrow>
               Inr \<lparr>user_id = uid,
                    word_id = dict_get (tw_word_id word_data) [],
                    mastery_level = m,
                    repetitions = dict_get (tw_repetitions word_data) 0,
                    ease_factor = ef,
                    last_review = parse_date (tw_last_review word_data),
                    next_review = parse_date (tw_next_review word_data),
                    seen_count = dict_get (tw_seen_count word_data) 0,
                    correct_count = dict_get (tw_correct_count word_data) 0,
                    updated_at = now\<rparr>))"

text \<open>
  The loop of \<^verbatim>\<open>_import_word_progress\<close> with its accumulator
  \<^verbatim>\<open>word_objects\<close>; an entry whose construction raises is logged and left out.
\<close>

fun import_words ::
  "datetime \<Rightarrow> string \<Rightarrow> trial_word list \<Rightarrow> user_word list \<Rightarrow> user_word list" where
  "import_words now uid [] word_objects = word_objects"
| "import_words now uid (word_data # rest) word_objects =
     (case build_user_word now uid word_data of
        Inl e \<Rightarrow> import_words now uid rest word_objects
      | Inr word_progress \<Rightarrow> import_words now uid rest (word_objects @ [word_progress]))"

definition import_word_progress :: "datetime \<Rightarrow> db \<Rightarrow> string \<Rightarrow> trial_word list \<Rightarrow> db" where
  "import_word_progress now d uid words_data =
     (let word_objects = import_words now uid words_data []
      in if word_objects \<noteq> [] then d\<lparr>new_user_words := new_user_words d @ word_objects\<rparr> else d)"

definition build_session :: "string \<Rightarrow> trial_session \<Rightarrow> error + practice_session" where
  "build_session uid session_data =
     (case Decimal_str_any (dict_get (ts_accuracy session_data) (PFloat (Float 0 0))) of
        Inl e \<Rightarrow> Inl e
      | Inr a \<Rightarrow>
          Inr \<lparr>s_user_id = uid,
               practice_type = dict_get (ts_practice_type session_data) ''flashcard'',
               words_count = dict_get (ts_words_count session_data) 0,
               s_correct_count = dict_get (ts_correct_count session_data) 0,
               accuracy = a,
               duration_seconds = dict_get (ts_duration_seconds session_data) 0,
               started_at = parse_datetime (ts_started_at session_data),
               completed_at = parse_datetime (ts_completed_at session_data)\<rparr>)"

text \<open>\<^verbatim>\<open>sessions_data[-5:] if len(sessions_data) > 5 else sessions_data\<close>\<close>

definition recent_sessions :: "'a list \<Rightarrow> 'a list" where
  "recent_sessions sessions_data =
     (if length sessions_data > 5 then drop (length sessions_data - 5) sessions_data
      else sessions_data)"

fun import_sessions ::
  "string \<Rightarrow> trial_session list \<Rightarrow> practice_session list \<Rightarrow> practice_session list" where
  "import_sessions uid [] session_objects = session_objects"
| "import_sessions uid (session_data # rest) session_objects =
     (case build_session uid session_data of
        Inl e \<Rightarrow> import_sessions uid rest session_objects
      | Inr s \<Rightarrow> import_sessions uid rest (session_objects @ [s]))"

definition import_session_summaries :: "db \<Rightarrow> string \<Rightarrow> trial_session list \<Rightarrow> db" where
  "import_session_summaries d uid sessions_data =
     (let session_objects = import_sessions uid (recent_sessions sessions_data) []
      in if session_objects \<noteq> [] then d\<lparr>new_sessions := new_sessions d @ session_objects\<rparr>
         else d)"

text \<open>
  \<^verbatim>\<open>_update_user_stats\<close>: the three counters are overwritten, and a truthy
  \<^verbatim>\<open>last_active_date\<close> of the payload is parsed and stored.
\<close>

definition trial_stats_update :: "stats_dict \<Rightarrow> user \<Rightarrow> user" where
  "trial_stats_update stats_data u =
     (let u1 = u\<lparr>total_words_learned := stats_get stats_data ''total_words_learned'' 0,
                 current_streak := stats_get stats_data ''current_streak'' 0,
                 max_streak := stats_get stats_data ''max_streak'' 0\<rparr>
      in case last_active_date_item stats_data of
           None \<Rightarrow> u1
         | Some Falsy \<Rightarrow> u1
         | Some last_active \<Rightarrow> u1\<lparr>last_active_date := parse_date (Some last_active)\<rparr>)"

definition update_user_stats :: "db \<Rightarrow> string \<Rightarrow> stats_dict \<Rightarrow> db" where
  "update_user_stats d uid stats_data =
     (case query_user d uid of
        Some u \<Rightarrow>
          d\<lparr>users := update_first (\<lambda>u. u_id u = uid) (trial_stats_update stats_data) (users d)\<rparr>
      | None \<Rightarrow> d)"

definition import_trial_progress :: "datetime \<Rightarrow> db \<Rightarrow> string \<Rightarrow> trial_payload \<Rightarrow> db" where
  "import_trial_progress now d uid trial_data =
     (let d1 = (if trial_words trial_data \<noteq> []
                then import_word_progress now d uid (trial_words trial_data) else d);
          d2 = (if trial_sessions trial_data \<noteq> []
                then import_session_summaries d1 uid (trial_sessions trial_data) else d1)
      in if stats_truthy (trial_stats trial_data)
         then update_user_stats d2 uid (trial_stats trial_data) else d2)"

section \<open>Example data\<close>

definition example_account :: "int \<Rightarrow> int \<Rightarrow> user" where
  "example_account c m =
     \<lparr>u_id = ''u1'', total_words_learned = 0, current_streak = c, max_streak = m,
      last_active_date = None, u_updated_at = 0\<rparr>"

definition example_db :: "user list \<Rightarrow> user_word list \<Rightarrow> db" where
  "example_db us ws =
     \<lparr>users = us, user_words = ws, db_sessions = [], new_user_words = [], new_sessions = []\<rparr>"

definition example_stats :: "(string \<times> int) list \<Rightarrow> stats_dict" where
  "example_stats kvs = \<lparr>int_items = kvs, last_active_date_item = None\<rparr>"

definition stats_only :: "stats_dict \<Rightarrow> progress_sync_data" where
  "stats_only s = \<lparr>words = [], stats = s\<rparr>"

definition trial_stats_only :: "stats_dict \<Rightarrow> trial_payload" where
  "trial_stats_only s = \<lparr>trial_words = [], trial_sessions = [], trial_stats = s\<rparr>"

text \<open>The invariant of \<open>UserStats\<close> in the specification.\<close>

definition streak_invariant :: "user \<Rightarrow> bool" where
  "streak_invariant u = (current_streak u \<le> max_streak u)"

definition client_dated_stats :: stats_dict where
  "client_dated_stats = \<lparr>int_items = [], last_active_date_item = Some (Iso (2020, 1, 1))\<rparr>"

text \<open>
  \<^verbatim>\<open>Decimal(str(d.get(key, default)))\<close> returns rather than raises.
\<close>

definition converts :: "pyval option \<Rightarrow> pyval \<Rightarrow> bool" where
  "converts v dflt = (\<not> isl (Decimal_str_any (dict_get v dflt)))"

text \<open>The entry \<^verbatim>\<open>{}\<close> of a trial \<^verbatim>\<open>words\<close> list, and three variants.\<close>

definition empty_entry :: trial_word where
  "empty_entry =
     \<lparr>tw_word_id = None, tw_mastery_level = None, tw_repetitions = None,
      tw_ease_factor = None, tw_last_review = None, tw_next_review = None,
      tw_seen_count = None, tw_correct_count = None\<rparr>"

definition null_mastery_entry :: trial_word where
  "null_mastery_entry = empty_entry\<lparr>tw_mastery_level := Some PNone\<rparr>"

definition out_of_range_entry :: trial_word where
  "out_of_range_entry =
     empty_entry\<lparr>tw_word_id := Some ''apple'', tw_mastery_level := Some (PInt 7),
                  tw_ease_factor := Some (PInt 0)\<rparr>"

definition trial_words_only :: "trial_word list \<Rightarrow> trial_payload" where
  "trial_words_only ws =
     \<lparr>trial_words = ws, trial_sessions = [],
      trial_stats = \<lparr>int_items = [], last_active_date_item = None\<rparr>\<rparr>"

text \<open>Session summaries \<^verbatim>\<open>{"words_count": k}\<close> and \<^verbatim>\<open>{"accuracy": null}\<close>.\<close>

definition numbered_session :: "int \<Rightarrow> trial_session" where
  "numbered_session k =
     \<lparr>ts_practice_type = None, ts_words_count = Some k, ts_correct_count = None,
      ts_accuracy = None, ts_duration_seconds = None, ts_started_at = None,
      ts_completed_at = None\<rparr>"

definition null_accuracy_session :: trial_session where
  "null_accuracy_session =
     \<lparr>ts_practice_type = None, ts_words_count = None, ts_correct_count = None,
      ts_accuracy = Some PNone, ts_duration_seconds = None, ts_started_at = None,
      ts_completed_at = None\<rparr>"

text \<open>The bounds of the specification on the fields of a progress record.\<close>

definition in_range :: "user_word \<Rightarrow> bool" where
  "in_range r =
     (0 \<le> mastery_level r \<and> mastery_level r \<le> 5 \<and>
      13 / 10 \<le> ease_factor r \<and> ease_factor r \<le> 5)"

definition well_formed_without_word_id :: "trial_word \<Rightarrow> bool" where
  "well_formed_without_word_id w =
     (tw_word_id w = None \<and> converts (tw_mastery_level w) (PFloat (Float 0 0)) \<and>
      converts (tw_ease_factor w) (PFloat (Float (5/2) (5/2))))"

text \<open>
  Progress records of user \<open>u1\<close>: \<open>A\<close> and \<open>B\<close> are the records of the
  specification's example, \<open>C\<close> is mastered, \<open>D\<close> is scheduled for a later day and
  \<open>E\<close> was never reviewed.
\<close>

definition example_word ::
  "string \<Rightarrow> rat \<Rightarrow> date option \<Rightarrow> date option \<Rightarrow> user_word" where
  "example_word wid m lr nr =
     \<lparr>user_id = ''u1'', word_id = wid, mastery_level = m, repetitions = 1,
      ease_factor = 5 / 2, last_review = lr, next_review = nr, seen_count = 1,
      correct_count = 1, updated_at = 0\<rparr>"

definition word_A :: user_word where
  "word_A = example_word ''A'' 1 (Some (2024, 1, 1)) None"

definition word_B :: user_word where
  "word_B = example_word ''B'' 1 (Some (2024, 2, 1)) (Some (2024, 2, 15))"

definition word_C :: user_word where
  "word_C = example_word ''C'' (9 / 2) (Some (2023, 12, 1)) None"

definition word_D :: user_word where
  "word_D = example_word ''D'' (1 / 2) (Some (2024, 2, 20)) (Some (2024, 3, 2))"

definition word_E :: user_word where
  "word_E = example_word ''E'' 1 None None"

text \<open>
  A validated batch entry whose floats print as they are (\<open>1\<close>, \<open>2\<close>, \<open>2.5\<close>).
\<close>

definition example_entry :: "string \<Rightarrow> rat \<Rightarrow> int \<Rightarrow> word_progress" where
  "example_entry wid m r =
     \<lparr>wp_word_id = wid, wp_mastery_level = Float m m, wp_repetitions = r,
      wp_ease_factor = Float (5 / 2) (5 / 2), wp_last_review = None, wp_next_review = None,
      wp_seen_count = 1, wp_correct_count = 1\<rparr>"

definition words_only :: "word_progress list \<Rightarrow> progress_sync_data" where
  "words_only ws = \<lparr>words = ws, stats = \<lparr>int_items = [], last_active_date_item = None\<rparr>\<rparr>"







text \<open>
  The float \<^verbatim>\<open>2.3\<close>: its binary value, and the decimal \<^verbatim>\<open>str\<close> prints.
\<close>

definition float_2_3 :: pyfloat where
  "float_2_3 = Float (2589569785738035 / 1125899906842624) (23 / 10)"

definition inexact_batch :: progress_sync_data where
  "inexact_batch = words_only [(example_entry ''B'' 0 1)\<lparr>wp_mastery_level := float_2_3\<rparr>]"

section \<open>Auxiliary facts\<close>

lemmas example_defs =
  example_account_def example_db_def example_stats_def stats_only_def trial_stats_only_def

lemmas stats_defs =
  query_user_def stats_truthy_def stats_get_def sync_stats_def sync_user_stats_def
  trial_stats_update_def update_user_stats_def

lemma find_update_first:
  "find P xs = Some x \<Longrightarrow> P (f x) \<Longrightarrow> find P (update_first P f xs) = Some (f x)"
  by (induction xs) (auto split: if_splits)

subsection \<open>The account row through the operations\<close>

lemma sync_word_users:
  "sync_word now qr d uid w = Inr (d', c) \<Longrightarrow> users d' = users d"
  by (auto simp: sync_word_def split: if_splits option.splits)

lemma sync_words_users:
  "users (fst (sync_words now qr uid ws (d, cs, n))) = users d"
proof (induction ws arbitrary: d cs n)
  case Nil
  show ?case by simp
next
  case (Cons w ws)
  show ?case
  proof (cases "sync_word now qr d uid w")
    case (Inl e)
    then show ?thesis using Cons.IH by simp
  next
    case (Inr p)
    obtain d' c where p: "p = (d', c)" by (cases p)
    with Inr Cons.IH [of d'] sync_word_users [of now qr d uid w d' c]
    show ?thesis by simp
  qed
qed

lemma commit_users: "commit d = Inr d' \<Longrightarrow> users d' = users d"
  by (auto simp: commit_def split: if_splits)

lemma sync_user_progress_users:
  assumes "sync_user_progress today now qr d uid sd = Inr (d', r)"
  shows "users d' = users (sync_user_stats today now d uid (stats sd))"
proof -
  obtain d1 cs n where sw: "sync_words now qr uid (words sd) (d, [], 0) = (d1, cs, n)"
    by (cases "sync_words now qr uid (words sd) (d, [], 0)") auto
  from sw sync_words_users [of now qr uid "words sd" d "[]" 0]
  have u1: "users d1 = users d" by simp
  from assms sw have "commit (sync_user_stats today now d1 uid (stats sd)) = Inr d'"
    by (auto simp: sync_user_progress_def split: sum.splits)
  then have "users d' = users (sync_user_stats today now d1 uid (stats sd))"
    by (rule commit_users)
  also have "\<dots> = users (sync_user_stats today now d uid (stats sd))"
    using u1 by (auto simp: sync_user_stats_def query_user_def split: option.splits)
  finally show ?thesis .
qed

lemma query_user_id: "query_user d uid = Some u \<Longrightarrow> u_id u = uid"
  by (auto simp: query_user_def dest: find_Some_iff[THEN iffD1])

lemma sync_user_progress_account:
  assumes "sync_user_progress today now qr d uid sd = Inr (d', r)"
    and "query_user d uid = Some u" and "stats_truthy (stats sd)"
  shows "query_user d' uid = Some (sync_stats today now (stats sd) u)"
proof -
  have "u_id (sync_stats today now (stats sd) u) = uid"
    using query_user_id [OF assms(2)] by (simp add: sync_stats_def)
  with assms(2,3) sync_user_progress_users [OF assms(1)] show ?thesis
    by (simp add: query_user_def sync_user_stats_def find_update_first)
qed

lemma trial_stats_update_id: "u_id (trial_stats_update s u) = u_id u"
  by (simp add: trial_stats_update_def Let_def split: option.splits iso_arg.splits)

lemma update_user_stats_account:
  assumes "query_user d uid = Some u"
  shows "query_user (update_user_stats d uid s) uid = Some (trial_stats_update s u)"
  using assms query_user_id [OF assms]
  by (simp add: query_user_def update_user_stats_def find_update_first trial_stats_update_id)

lemma import_word_progress_users: "users (import_word_progress now d uid ws) = users d"
  by (simp add: import_word_progress_def Let_def)

lemma import_session_summaries_users: "users (import_session_summaries d uid ss) = users d"
  by (simp add: import_session_summaries_def Let_def)

lemma import_trial_progress_account:
  assumes "query_user d uid = Some u" and "stats_truthy (trial_stats td)"
  shows "query_user (import_trial_progress now d uid td) uid
           = Some (trial_stats_update (trial_stats td) u)"
proof -
  define d1 where
    "d1 = (if trial_words td \<noteq> [] then import_word_progress now d uid (trial_words td) else d)"
  define d2 where
    "d2 = (if trial_sessions td \<noteq> []
           then import_session_summaries d1 uid (trial_sessions td) else d1)"
  have "users d2 = users d"
    by (simp add: d1_def d2_def import_word_progress_users import_session_summaries_users)
  with assms(1) have "query_user d2 uid = Some u" by (simp add: query_user_def)
  then have "query_user (update_user_stats d2 uid (trial_stats td)) uid
      = Some (trial_stats_update (trial_stats td) u)" by (rule update_user_stats_account)
  moreover have "import_trial_progress now d uid td = update_user_stats d2 uid (trial_stats td)"
    using assms(2) by (simp add: import_trial_progress_def d1_def d2_def Let_def)
  ultimately show ?thesis by simp
qed

section \<open>Stats aggregator\<close>

text \<open>
  Claim C3, as stated: every stats update of an existing account leaves
  \<open>max_streak = max(existing, incoming-or-0)\<close>, so \<open>max_streak\<close> never decreases.
  The trial stats import \<^verbatim>\<open>_update_user_stats\<close> overwrites the field instead: on an
  account with \<open>max_streak = 5\<close> the payload \<open>{max_streak: 3}\<close> leaves 3, and on a fresh
  account (\<open>max_streak = 0\<close>) the payload \<open>{max_streak: -3}\<close> leaves -3.
\<close>

theorem trial_stats_overwrite_max_streak_counterexample:
  "map max_streak (users (import_trial_progress 100 (example_db [example_account 0 5] []) ''u1''
        (trial_stats_only (example_stats [(''max_streak'', 3)])))) = [3]
   \<and> max (max_streak (example_account 0 5))
          (stats_get (example_stats [(''max_streak'', 3)]) ''max_streak'' 0) = 5
   \<and> map max_streak (users (import_trial_progress 100 (example_db [example_account 0 0] []) ''u1''
        (trial_stats_only (example_stats [(''max_streak'', - 3)])))) = [- 3]
   \<and> max (max_streak (example_account 0 0))
          (stats_get (example_stats [(''max_streak'', - 3)]) ''max_streak'' 0) = 0"
  by (simp add: import_trial_progress_def example_defs stats_defs)

text \<open>
  Claim C3, amended: a merge (\<^verbatim>\<open>sync_user_progress\<close>) that carries a non-empty stats
  map leaves the account of an existing user with
  \<open>max_streak = max(existing, incoming-or-0)\<close>, which is never below the existing value;
  the trial import of a non-empty stats map leaves \<open>max_streak = incoming-or-0\<close>.
\<close>

theorem merge_max_streak:
  assumes "query_user d uid = Some u"
  shows "(\<forall>d' r. sync_user_progress today now query_raises d uid sync_data = Inr (d', r) \<and>
            stats_truthy (stats sync_data) \<longrightarrow>
            (\<exists>u'. query_user d' uid = Some u' \<and>
               max_streak u' = max (max_streak u) (stats_get (stats sync_data) ''max_streak'' 0) \<and>
               max_streak u \<le> max_streak u')) \<and>
         (\<forall>now' trial_data. stats_truthy (trial_stats trial_data) \<longrightarrow>
            (\<exists>u'. query_user (import_trial_progress now' d uid trial_data) uid = Some u' \<and>
               max_streak u' = stats_get (trial_stats trial_data) ''max_streak'' 0))"
proof -
  have merge: "\<exists>u'. query_user d' uid = Some u' \<and>
      max_streak u' = max (max_streak u) (stats_get (stats sync_data) ''max_streak'' 0) \<and>
      max_streak u \<le> max_streak u'"
    if "sync_user_progress today now query_raises d uid sync_data = Inr (d', r)"
      and "stats_truthy (stats sync_data)" for d' r
    using sync_user_progress_account [OF that(1) assms that(2)] by (simp add: sync_stats_def)
  have trial: "\<exists>u'. query_user (import_trial_progress now' d uid td) uid = Some u' \<and>
      max_streak u' = stats_get (trial_stats td) ''max_streak'' 0"
    if "stats_truthy (trial_stats td)" for now' td
    using import_trial_progress_account [OF assms that, of now']
    by (simp add: trial_stats_update_def Let_def split: option.splits iso_arg.splits)
  from merge trial show ?thesis by blast
qed

text \<open>
  The examples of the specification on the merge path: existing 5 and incoming 3 give 5,
  existing 2 and incoming 7 give 7.
\<close>

theorem merge_max_streak_witness:
  "(\<exists>u'. query_user (fst (projr (sync_user_progress (2024, 6, 1) 100 (\<lambda>w. False)
              (example_db [example_account 1 5] []) ''u1''
              (stats_only (example_stats [(''max_streak'', 3)]))))) ''u1'' = Some u'
          \<and> max_streak u' = 5)
   \<and> (\<exists>u'. query_user (fst (projr (sync_user_progress (2024, 6, 1) 100 (\<lambda>w. False)
              (example_db [example_account 1 2] []) ''u1''
              (stats_only (example_stats [(''max_streak'', 7)]))))) ''u1'' = Some u'
          \<and> max_streak u' = 7)"
proof -
  let ?s3 = "stats_only (example_stats [(''max_streak'', 3)])"
  let ?s7 = "stats_only (example_stats [(''max_streak'', 7)])"
  let ?u5 = "example_account 1 5"
  let ?u2 = "example_account 1 2"
  let ?r5 = "sync_user_progress (2024, 6, 1) 100 (\<lambda>w. False) (example_db [?u5] []) ''u1'' ?s3"
  let ?r2 = "sync_user_progress (2024, 6, 1) 100 (\<lambda>w. False) (example_db [?u2] []) ''u1'' ?s7"
  have run5: "?r5 = Inr (fst (projr ?r5), snd (projr ?r5))"
    by (simp add: sync_user_progress_def commit_def example_defs stats_defs)
  have run2: "?r2 = Inr (fst (projr ?r2), snd (projr ?r2))"
    by (simp add: sync_user_progress_def commit_def example_defs stats_defs)
  have q5: "query_user (example_db [?u5] []) ''u1'' = Some ?u5"
    by (simp add: example_defs stats_defs)
  have q2: "query_user (example_db [?u2] []) ''u1'' = Some ?u2"
    by (simp add: example_defs stats_defs)
  have t3: "stats_truthy (stats ?s3)" by (simp add: example_defs stats_defs)
  have t7: "stats_truthy (stats ?s7)" by (simp add: example_defs stats_defs)
  have m5: "max (max_streak ?u5) (stats_get (stats ?s3) ''max_streak'' 0) = 5"
    by (simp add: example_defs stats_defs)
  have m2: "max (max_streak ?u2) (stats_get (stats ?s7) ''max_streak'' 0) = 7"
    by (simp add: example_defs stats_defs)
  from merge_max_streak [OF q5, of "(2024, 6, 1)" 100 "\<lambda>w. False" ?s3] run5 t3 m5
  have a: "\<exists>u'. query_user (fst (projr ?r5)) ''u1'' = Some u' \<and> max_streak u' = 5"
    by (metis (no_types, lifting))
  from merge_max_streak [OF q2, of "(2024, 6, 1)" 100 "\<lambda>w. False" ?s7] run2 t7 m2
  have b: "\<exists>u'. query_user (fst (projr ?r2)) ''u1'' = Some u' \<and> max_streak u' = 7"
    by (metis (no_types, lifting))
  from a b show ?thesis by blast
qed

text \<open>
  Claim C4, as stated: after every operation and for every payload,
  \<open>max_streak \<ge> current_streak\<close>. No operation compares the two fields. A merge with
  stats \<open>{current_streak: 10, max_streak: 3}\<close> on an account with streaks (1, 5) leaves
  (10, 5); the trial import of the same stats on a fresh account leaves (10, 3).
\<close>

theorem streak_invariant_counterexample:
  "list_all streak_invariant (users (example_db [example_account 1 5] []))
   \<and> sync_user_progress (2024, 6, 1) 100 (\<lambda>w. False) (example_db [example_account 1 5] []) ''u1''
        (stats_only (example_stats [(''current_streak'', 10), (''max_streak'', 3)]))
      = Inr (example_db [\<lparr>u_id = ''u1'', total_words_learned = 0, current_streak = 10,
                          max_streak = 5, last_active_date = Some (2024, 6, 1),
                          u_updated_at = 100\<rparr>] [],
             \<lparr>updated_words = 0, conflicts = [], sync_timestamp = 100\<rparr>)
   \<and> \<not> streak_invariant \<lparr>u_id = ''u1'', total_words_learned = 0, current_streak = 10,
                          max_streak = 5, last_active_date = Some (2024, 6, 1),
                          u_updated_at = 100\<rparr>
   \<and> import_trial_progress 100 (example_db [example_account 0 0] []) ''u1''
        (trial_stats_only (example_stats [(''current_streak'', 10), (''max_streak'', 3)]))
      = example_db [example_account 10 3] []
   \<and> \<not> streak_invariant (example_account 10 3)"
  by (simp add: sync_user_progress_def commit_def import_trial_progress_def
      streak_invariant_def example_defs stats_defs)

text \<open>
  Claim C4, amended: after a merge stats update of an existing account the invariant
  holds exactly when the resulting \<open>current_streak\<close> (the incoming one, or the existing
  one when the update omits it) is at most \<open>max(existing max_streak, incoming-or-0)\<close>;
  so it is kept when it held before and the incoming \<open>current_streak\<close>, if any, is at
  most the incoming \<open>max_streak\<close>-or-0. After a trial stats import it holds exactly when
  the incoming \<open>current_streak\<close>-or-0 is at most the incoming \<open>max_streak\<close>-or-0.
\<close>

theorem streak_invariant_when_payload_consistent:
  assumes "query_user d uid = Some u"
  shows "(\<forall>d' r. sync_user_progress today now query_raises d uid sync_data = Inr (d', r) \<and>
            stats_truthy (stats sync_data) \<longrightarrow>
            (\<exists>u'. query_user d' uid = Some u' \<and>
               (streak_invariant u' \<longleftrightarrow>
                  stats_get (stats sync_data) ''current_streak'' (current_streak u)
                    \<le> max (max_streak u) (stats_get (stats sync_data) ''max_streak'' 0)) \<and>
               (streak_invariant u \<and>
                (\<forall>c. map_of (int_items (stats sync_data)) ''current_streak'' = Some c \<longrightarrow>
                      c \<le> stats_get (stats sync_data) ''max_streak'' 0)
                \<longrightarrow> streak_invariant u'))) \<and>
         (\<forall>now' trial_data. stats_truthy (trial_stats trial_data) \<longrightarrow>
            (\<exists>u'. query_user (import_trial_progress now' d uid trial_data) uid = Some u' \<and>
               (streak_invariant u' \<longleftrightarrow>
                  stats_get (trial_stats trial_data) ''current_streak'' 0
                    \<le> stats_get (trial_stats trial_data) ''max_streak'' 0)))"
proof -
  let ?s = "stats sync_data"
  let ?u' = "sync_stats today now ?s u"
  have b: "streak_invariant ?u' \<longleftrightarrow>
      stats_get ?s ''current_streak'' (current_streak u)
        \<le> max (max_streak u) (stats_get ?s ''max_streak'' 0)"
    by (simp add: streak_invariant_def sync_stats_def)
  have c: "streak_invariant u \<and>
      (\<forall>c. map_of (int_items ?s) ''current_streak'' = Some c \<longrightarrow>
           c \<le> stats_get ?s ''max_streak'' 0) \<longrightarrow> streak_invariant ?u'"
    unfolding b by (auto simp: streak_invariant_def stats_get_def split: option.splits)
  have merge: "\<exists>u'. query_user d' uid = Some u' \<and>
      (streak_invariant u' \<longleftrightarrow>
         stats_get ?s ''current_streak'' (current_streak u)
           \<le> max (max_streak u) (stats_get ?s ''max_streak'' 0)) \<and>
      (streak_invariant u \<and>
       (\<forall>c. map_of (int_items ?s) ''current_streak'' = Some c \<longrightarrow>
             c \<le> stats_get ?s ''max_streak'' 0)
       \<longrightarrow> streak_invariant u')"
    if "sync_user_progress today now query_raises d uid sync_data = Inr (d', r)"
      and "stats_truthy ?s" for d' r
    using sync_user_progress_account [OF that(1) assms that(2)] b c
    by (intro exI [of _ ?u']) simp
  have trial: "\<exists>u'. query_user (import_trial_progress now' d uid td) uid = Some u' \<and>
               (streak_invariant u' \<longleftrightarrow>
                  stats_get (trial_stats td) ''current_streak'' 0
                    \<le> stats_get (trial_stats td) ''max_streak'' 0)"
    if "stats_truthy (trial_stats td)" for now' td
    using import_trial_progress_account [OF assms that, of now']
    by (simp add: streak_invariant_def trial_stats_update_def Let_def
        split: option.splits iso_arg.splits)
  from merge trial show ?thesis by blast
qed

theorem streak_invariant_when_payload_consistent_witness:
  "\<exists>u'. query_user (fst (projr (sync_user_progress (2024, 6, 1) 100 (\<lambda>w. False)
              (example_db [example_account 1 5] []) ''u1''
              (stats_only (example_stats [(''current_streak'', 2), (''max_streak'', 3)])))))
            ''u1'' = Some u'
        \<and> streak_invariant u' \<and> current_streak u' = 2 \<and> max_streak u' = 5"
proof -
  let ?s = "stats_only (example_stats [(''current_streak'', 2), (''max_streak'', 3)])"
  let ?u = "example_account 1 5"
  let ?r = "sync_user_progress (2024, 6, 1) 100 (\<lambda>w. False) (example_db [?u] []) ''u1'' ?s"
  have run: "?r = Inr (fst (projr ?r), snd (projr ?r))"
    by (simp add: sync_user_progress_def commit_def example_defs stats_defs)
  have q: "query_user (example_db [?u] []) ''u1'' = Some ?u"
    by (simp add: example_defs stats_defs)
  have t: "stats_truthy (stats ?s)" by (simp add: example_defs stats_defs)
  have pre: "streak_invariant ?u \<and>
     (\<forall>c. map_of (int_items (stats ?s)) ''current_streak'' = Some c \<longrightarrow>
           c \<le> stats_get (stats ?s) ''max_streak'' 0)"
    by (simp add: streak_invariant_def example_defs stats_defs)
  have vals: "current_streak (sync_stats (2024, 6, 1) 100 (stats ?s) ?u) = 2
      \<and> max_streak (sync_stats (2024, 6, 1) 100 (stats ?s) ?u) = 5"
    by (simp add: example_defs stats_defs)
  from streak_invariant_when_payload_consistent [OF q, of "(2024, 6, 1)" 100 "\<lambda>w. False" ?s]
    run t
  have "\<exists>u'. query_user (fst (projr ?r)) ''u1'' = Some u' \<and>
      (streak_invariant ?u \<and>
       (\<forall>c. map_of (int_items (stats ?s)) ''current_streak'' = Some c \<longrightarrow>
             c \<le> stats_get (stats ?s) ''max_streak'' 0)
       \<longrightarrow> streak_invariant u')"
    by (metis (no_types, lifting))
  with pre obtain u' where
    u': "query_user (fst (projr ?r)) ''u1'' = Some u'" "streak_invariant u'"
    by blast
  moreover from sync_user_progress_account [OF run q t] u'(1) vals
  have "current_streak u' = 2 \<and> max_streak u' = 5" by simp
  ultimately show ?thesis by blast
qed

text \<open>
  Claim C9, as stated: every stats update stamps \<open>last_active_date\<close> with the current
  date and never takes it from the payload. The trial stats import has no current date at
  all: it stores what \<^verbatim>\<open>_parse_date\<close> reads from the payload's
  \<^verbatim>\<open>last_active_date\<close>, here 2020-01-01.
\<close>

theorem trial_last_active_date_counterexample:
  "import_trial_progress 100 (example_db [example_account 0 0] []) ''u1''
     (trial_stats_only client_dated_stats)
   = example_db [\<lparr>u_id = ''u1'', total_words_learned = 0, current_streak = 0, max_streak = 0,
                  last_active_date = Some (2020, 1, 1), u_updated_at = 0\<rparr>] []"
  by (simp add: import_trial_progress_def client_dated_stats_def example_defs stats_defs)

text \<open>
  Claim C9, amended: a merge that carries a non-empty stats map sets the
  \<open>last_active_date\<close> of an existing account to the current date of the operation,
  whatever \<^verbatim>\<open>last_active_date\<close> the payload holds. The trial stats import stores
  the date parsed from a truthy \<^verbatim>\<open>last_active_date\<close> of the payload (nothing when
  the text is no ISO date) and leaves the field as it was otherwise.
\<close>

theorem merge_stamps_last_active_date:
  assumes "query_user d uid = Some u"
  shows "(\<forall>d' r. sync_user_progress today now query_raises d uid sync_data = Inr (d', r) \<and>
            stats_truthy (stats sync_data) \<longrightarrow>
            (\<exists>u'. query_user d' uid = Some u' \<and> last_active_date u' = Some today)) \<and>
         (\<forall>now' trial_data. stats_truthy (trial_stats trial_data) \<longrightarrow>
            (\<exists>u'. query_user (import_trial_progress now' d uid trial_data) uid = Some u' \<and>
               last_active_date u' =
                 (case last_active_date_item (trial_stats trial_data) of
                    Some (Iso dt) \<Rightarrow> Some dt
                  | Some NotIso \<Rightarrow> None
                  | Some Falsy \<Rightarrow> last_active_date u
                  | None \<Rightarrow> last_active_date u)))"
proof -
  have merge: "\<exists>u'. query_user d' uid = Some u' \<and> last_active_date u' = Some today"
    if "sync_user_progress today now query_raises d uid sync_data = Inr (d', r)"
      and "stats_truthy (stats sync_data)" for d' r
    using sync_user_progress_account [OF that(1) assms that(2)] by (simp add: sync_stats_def)
  have trial: "\<exists>u'. query_user (import_trial_progress now' d uid td) uid = Some u' \<and>
               last_active_date u' =
                 (case last_active_date_item (trial_stats td) of
                    Some (Iso dt) \<Rightarrow> Some dt
                  | Some NotIso \<Rightarrow> None
                  | Some Falsy \<Rightarrow> last_active_date u
                  | None \<Rightarrow> last_active_date u)"
    if "stats_truthy (trial_stats td)" for now' td
    using import_trial_progress_account [OF assms that, of now']
    by (simp add: trial_stats_update_def Let_def split: option.splits iso_arg.splits)
  from merge trial show ?thesis by blast
qed

theorem merge_stamps_last_active_date_witness:
  "\<exists>u'. query_user (fst (projr (sync_user_progress (2024, 6, 1) 100 (\<lambda>w. False)
              (example_db [example_account 0 0] []) ''u1'' (stats_only client_dated_stats))))
            ''u1'' = Some u'
        \<and> last_active_date u' = Some (2024, 6, 1)"
proof -
  let ?s = "stats_only client_dated_stats"
  let ?u = "example_account 0 0"
  let ?r = "sync_user_progress (2024, 6, 1) 100 (\<lambda>w. False) (example_db [?u] []) ''u1'' ?s"
  have run: "?r = Inr (fst (projr ?r), snd (projr ?r))"
    by (simp add: sync_user_progress_def commit_def client_dated_stats_def example_defs stats_defs)
  have q: "query_user (example_db [?u] []) ''u1'' = Some ?u"
    by (simp add: example_defs stats_defs)
  have t: "stats_truthy (stats ?s)"
    by (simp add: client_dated_stats_def example_defs stats_defs)
  from merge_stamps_last_active_date [OF q, of "(2024, 6, 1)" 100 "\<lambda>w. False" ?s] run t
  show ?thesis by (metis (no_types, lifting))
qed

section \<open>Trial importer\<close>

subsection \<open>The two loops as list functions\<close>

lemma import_sessions_eq:
  "import_sessions uid ss acc
     = acc @ map projr (filter (\<lambda>x. \<not> isl x) (map (build_session uid) ss))"
  by (induction ss arbitrary: acc) (auto split: sum.splits)

lemma new_sessions_import:
  "new_sessions (import_session_summaries d uid ss)
     = new_sessions d
       @ map projr (filter (\<lambda>x. \<not> isl x) (map (build_session uid) (recent_sessions ss)))"
  by (simp add: import_session_summaries_def Let_def import_sessions_eq)

lemma import_words_eq:
  "import_words now uid ws acc
     = acc @ map projr (filter (\<lambda>x. \<not> isl x) (map (build_user_word now uid) ws))"
  by (induction ws arbitrary: acc) (auto split: sum.splits)

lemma new_user_words_import:
  "new_user_words (import_word_progress now d uid ws)
     = new_user_words d
       @ map projr (filter (\<lambda>x. \<not> isl x) (map (build_user_word now uid) ws))"
  by (simp add: import_word_progress_def Let_def import_words_eq)

lemma filter_all: "\<forall>x\<in>set xs. P x \<Longrightarrow> filter P xs = xs"
  by (induction xs) auto

subsection \<open>Session summaries\<close>

text \<open>
  Claim C7, as stated: for a \<^verbatim>\<open>sessions\<close> list of length \<open>k\<close> exactly the last
  \<open>min(k, 5)\<close> entries are persisted. An entry whose construction raises is left out:
  the one-entry list \<^verbatim>\<open>[{"accuracy": null}]\<close> persists nothing, since
  \<^verbatim>\<open>Decimal("None")\<close> raises inside the per-entry \<^verbatim>\<open>try\<close>.
\<close>

theorem null_accuracy_session_counterexample:
  "import_session_summaries (example_db [] []) ''u1'' [null_accuracy_session] = example_db [] []
   \<and> min (length [null_accuracy_session]) 5 = 1"
  by (simp add: import_session_summaries_def recent_sessions_def build_session_def
      null_accuracy_session_def dict_get_def example_db_def)

text \<open>
  Claim C7, amended: of a \<^verbatim>\<open>sessions\<close> list of length \<open>k\<close> the importer
  considers exactly the last \<open>min(k, 5)\<close> entries, by input position, and hands to the
  session, in input order, the records built from those of them whose construction does
  not raise; when none of them raises these are exactly \<open>min(k, 5)\<close> records, one per
  entry.
\<close>

theorem last_five_sessions:
  "recent_sessions sessions_data = drop (length sessions_data - 5) sessions_data
   \<and> length (recent_sessions sessions_data) = min (length sessions_data) 5
   \<and> new_sessions (import_session_summaries d uid sessions_data)
       = new_sessions d
         @ map projr (filter (\<lambda>x. \<not> isl x)
             (map (build_session uid) (drop (length sessions_data - 5) sessions_data)))
   \<and> ((\<forall>s\<in>set (drop (length sessions_data - 5) sessions_data). \<not> isl (build_session uid s))
        \<longrightarrow> new_sessions (import_session_summaries d uid sessions_data)
              = new_sessions d
                @ map (\<lambda>s. projr (build_session uid s))
                    (drop (length sessions_data - 5) sessions_data)
            \<and> length (new_sessions (import_session_summaries d uid sessions_data))
              = length (new_sessions d) + min (length sessions_data) 5)"
proof -
  let ?recent = "drop (length sessions_data - 5) sessions_data"
  have r: "recent_sessions sessions_data = ?recent"
    by (simp add: recent_sessions_def)
  have l: "length ?recent = min (length sessions_data) 5" by auto
  have n: "new_sessions (import_session_summaries d uid sessions_data)
       = new_sessions d @ map projr (filter (\<lambda>x. \<not> isl x) (map (build_session uid) ?recent))"
    by (simp add: new_sessions_import r)
  have a: "new_sessions (import_session_summaries d uid sessions_data)
              = new_sessions d @ map (\<lambda>s. projr (build_session uid s)) ?recent
            \<and> length (new_sessions (import_session_summaries d uid sessions_data))
              = length (new_sessions d) + min (length sessions_data) 5"
    if ok: "\<forall>s\<in>set ?recent. \<not> isl (build_session uid s)"
  proof -
    from ok have "filter (\<lambda>x. \<not> isl x) (map (build_session uid) ?recent)
        = map (build_session uid) ?recent"
      by (intro filter_all) simp
    with n have "new_sessions (import_session_summaries d uid sessions_data)
        = new_sessions d @ map (\<lambda>s. projr (build_session uid s)) ?recent"
      by (simp add: comp_def)
    with l show ?thesis by simp
  qed
  from r l n a show ?thesis by (simp only: simp_thms) blast
qed

text \<open>
  The examples of the specification: of eight entries the last five are persisted, in
  input order; of three entries all three.
\<close>

theorem last_five_sessions_witness:
  "map words_count (new_sessions (import_session_summaries (example_db [] []) ''u1''
       (map numbered_session [1, 2, 3, 4, 5, 6, 7, 8]))) = [4, 5, 6, 7, 8]
   \<and> map words_count (new_sessions (import_session_summaries (example_db [] []) ''u1''
       (map numbered_session [1, 2, 3]))) = [1, 2, 3]"
proof -
  let ?eight = "map numbered_session [1, 2, 3, 4, 5, 6, 7, 8]"
  let ?three = "map numbered_session [1, 2, 3]"
  have b: "\<not> isl (build_session ''u1'' (numbered_session k))" for k
    by (simp add: build_session_def numbered_session_def dict_get_def)
  have w: "words_count (projr (build_session ''u1'' (numbered_session k))) = k" for k
    by (simp add: build_session_def numbered_session_def dict_get_def)
  have ok8: "\<forall>s\<in>set (drop (length ?eight - 5) ?eight). \<not> isl (build_session ''u1'' s)"
    by (simp add: b)
  have ok3: "\<forall>s\<in>set (drop (length ?three - 5) ?three). \<not> isl (build_session ''u1'' s)"
    by (simp add: b)
  from last_five_sessions [of ?eight "example_db [] []" "''u1''"] ok8
  have "new_sessions (import_session_summaries (example_db [] []) ''u1'' ?eight)
      = new_sessions (example_db [] [])
        @ map (\<lambda>s. projr (build_session ''u1'' s)) (drop (length ?eight - 5) ?eight)"
    by blast
  moreover
  from last_five_sessions [of ?three "example_db [] []" "''u1''"] ok3
  have "new_sessions (import_session_summaries (example_db [] []) ''u1'' ?three)
      = new_sessions (example_db [] [])
        @ map (\<lambda>s. projr (build_session ''u1'' s)) (drop (length ?three - 5) ?three)"
    by blast
  ultimately show ?thesis by (simp add: w example_db_def)
qed

subsection \<open>Word progress\<close>

text \<open>
  Claim C8: every record written by the trial word import or by the merge has
  \<open>mastery_level\<close> in [0, 5] and \<open>ease_factor\<close> in [1.3, 5]. The merge receives entries
  validated by \<^verbatim>\<open>WordProgressBase\<close>; the trial import reads the raw dictionary and
  checks nothing. The registration payload with the word
  \<^verbatim>\<open>{"word_id": "apple", "mastery_level": 7, "ease_factor": 0}\<close> is imported and
  committed with \<open>mastery_level = 7\<close> and \<open>ease_factor = 0\<close>.
\<close>

theorem trial_import_out_of_range:
  "commit (import_trial_progress 100 (example_db [example_account 0 0] []) ''u1''
      (trial_words_only [out_of_range_entry]))
   = Inr (example_db [example_account 0 0]
       [\<lparr>user_id = ''u1'', word_id = ''apple'', mastery_level = 7, repetitions = 0,
         ease_factor = 0, last_review = None, next_review = None, seen_count = 0,
         correct_count = 0, updated_at = 100\<rparr>])
   \<and> \<not> in_range \<lparr>user_id = ''u1'', word_id = ''apple'', mastery_level = 7, repetitions = 0,
         ease_factor = 0, last_review = None, next_review = None, seen_count = 0,
         correct_count = 0, updated_at = 100\<rparr>"
  by (simp add: import_trial_progress_def import_word_progress_def build_user_word_def
      commit_def word_key_def in_range_def stats_truthy_def dict_get_def
      out_of_range_entry_def empty_entry_def trial_words_only_def example_defs)

lemma build_without_word_id:
  assumes "well_formed_without_word_id w"
  shows "\<exists>r. build_user_word now uid w = Inr r \<and> user_id r = uid \<and> word_id r = []"
  using assms
  by (auto simp: well_formed_without_word_id_def converts_def build_user_word_def dict_get_def
      split: sum.splits option.splits)

lemma not_distinct_two:
  assumes "2 \<le> length (filter (\<lambda>x. x = k) xs)"
  shows "\<not> distinct xs"
proof
  assume "distinct xs"
  then have "length (filter (\<lambda>x. x = k) xs) = card ({x. x = k} \<inter> set xs)"
    by (simp add: distinct_length_filter)
  also have "\<dots> \<le> card {k}" by (intro card_mono) auto
  finally show False using assms by simp
qed

lemma count_built:
  "length (filter well_formed_without_word_id ws)
   \<le> length (filter (\<lambda>k. k = (uid, [])) (map word_key
        (map projr (filter (\<lambda>x. \<not> isl x) (map (build_user_word now uid) ws)))))"
proof (induction ws)
  case Nil
  show ?case by simp
next
  case (Cons w ws)
  show ?case
  proof (cases "well_formed_without_word_id w")
    case True
    with build_without_word_id [of w now uid] obtain r where
      "build_user_word now uid w = Inr r" "word_key r = (uid, [])"
      by (auto simp: word_key_def)
    with True Cons show ?thesis by simp
  next
    case False
    with Cons show ?thesis by auto
  qed
qed

lemma commit_collision:
  assumes "2 \<le> length (filter (\<lambda>k. k = key) (map word_key (new_user_words d)))"
  shows "commit d = Inl IntegrityError"
proof -
  have "length (filter (\<lambda>k. k = key) (map word_key (new_user_words d)))
      \<le> length (filter (\<lambda>k. k = key) (map word_key (user_words d @ new_user_words d)))"
    by simp
  with assms have "\<not> distinct (map word_key (user_words d @ new_user_words d))"
    by (intro not_distinct_two [where k = key]) linarith
  then show ?thesis by (simp add: commit_def)
qed

text \<open>
  Claim C10, as stated: every entry without a \<^verbatim>\<open>word_id\<close> is imported. The entry
  \<^verbatim>\<open>{"mastery_level": null}\<close> has no \<^verbatim>\<open>word_id\<close> and is skipped, because
  \<^verbatim>\<open>Decimal("None")\<close> raises inside the per-entry \<^verbatim>\<open>try\<close>.
\<close>

theorem null_mastery_entry_counterexample:
  "tw_word_id null_mastery_entry = None
   \<and> import_word_progress 100 (example_db [] []) ''u1'' [null_mastery_entry] = example_db [] []"
  by (simp add: import_word_progress_def build_user_word_def dict_get_def
      null_mastery_entry_def empty_entry_def example_db_def)

text \<open>
  Claim C10, amended: an entry of the trial \<^verbatim>\<open>words\<close> list without a
  \<^verbatim>\<open>word_id\<close>, whose \<^verbatim>\<open>mastery_level\<close> and \<^verbatim>\<open>ease_factor\<close> are
  missing or convert to a decimal, is not skipped: the importer builds a record with the
  empty string as \<open>word_id\<close> and with the defaults for the missing fields, and hands it
  to the session. Two such entries give two pending records with the key
  \<open>(user_id, "")\<close>, and the commit of the registration raises \<^verbatim>\<open>IntegrityError\<close>.
\<close>

theorem entry_without_word_id:
  "(well_formed_without_word_id w \<longrightarrow>
      (\<exists>r. build_user_word now uid w = Inr r \<and> user_id r = uid \<and> word_id r = [] \<and>
            (tw_mastery_level w = None \<longrightarrow> mastery_level r = 0) \<and>
            (tw_ease_factor w = None \<longrightarrow> ease_factor r = 5 / 2) \<and>
            (tw_repetitions w = None \<longrightarrow> repetitions r = 0) \<and>
            (tw_seen_count w = None \<longrightarrow> seen_count r = 0) \<and>
            (tw_correct_count w = None \<longrightarrow> correct_count r = 0) \<and>
            (tw_last_review w = None \<longrightarrow> last_review r = None) \<and>
            (tw_next_review w = None \<longrightarrow> next_review r = None) \<and>
            (\<forall>d words_data. w \<in> set words_data \<longrightarrow>
               r \<in> set (new_user_words (import_word_progress now d uid words_data)))))
   \<and> (\<forall>d words_data.
         2 \<le> length (filter well_formed_without_word_id words_data) \<longrightarrow>
         commit (import_word_progress now d uid words_data) = Inl IntegrityError)"
proof (rule conjI)
  show "\<forall>d words_data.
      2 \<le> length (filter well_formed_without_word_id words_data) \<longrightarrow>
      commit (import_word_progress now d uid words_data) = Inl IntegrityError"
  proof (intro allI impI)
    fix d words_data
    assume two: "2 \<le> length (filter well_formed_without_word_id words_data)"
    have "2 \<le> length (filter (\<lambda>k. k = (uid, [])) (map word_key
        (map projr (filter (\<lambda>x. \<not> isl x) (map (build_user_word now uid) words_data)))))"
      using two count_built [of words_data uid now] by linarith
    then have "2 \<le> length (filter (\<lambda>k. k = (uid, [])) (map word_key
        (new_user_words (import_word_progress now d uid words_data))))"
      by (simp add: new_user_words_import)
    then show "commit (import_word_progress now d uid words_data) = Inl IntegrityError"
      by (rule commit_collision)
  qed
next
  show "well_formed_without_word_id w \<longrightarrow>
      (\<exists>r. build_user_word now uid w = Inr r \<and> user_id r = uid \<and> word_id r = [] \<and>
            (tw_mastery_level w = None \<longrightarrow> mastery_level r = 0) \<and>
            (tw_ease_factor w = None \<longrightarrow> ease_factor r = 5 / 2) \<and>
            (tw_repetitions w = None \<longrightarrow> repetitions r = 0) \<and>
            (tw_seen_count w = None \<longrightarrow> seen_count r = 0) \<and>
            (tw_correct_count w = None \<longrightarrow> correct_count r = 0) \<and>
            (tw_last_review w = None \<longrightarrow> last_review r = None) \<and>
            (tw_next_review w = None \<longrightarrow> next_review r = None) \<and>
            (\<forall>d words_data. w \<in> set words_data \<longrightarrow>
               r \<in> set (new_user_words (import_word_progress now d uid words_data))))"
  proof
    assume wf: "well_formed_without_word_id w"
    from build_without_word_id [OF wf] obtain r where
      r: "build_user_word now uid w = Inr r" "user_id r = uid" "word_id r = []"
      by blast
    have dflt: "(tw_mastery_level w = None \<longrightarrow> mastery_level r = 0) \<and>
            (tw_ease_factor w = None \<longrightarrow> ease_factor r = 5 / 2) \<and>
            (tw_repetitions w = None \<longrightarrow> repetitions r = 0) \<and>
            (tw_seen_count w = None \<longrightarrow> seen_count r = 0) \<and>
            (tw_correct_count w = None \<longrightarrow> correct_count r = 0) \<and>
            (tw_last_review w = None \<longrightarrow> last_review r = None) \<and>
            (tw_next_review w = None \<longrightarrow> next_review r = None)"
      using r(1)
      by (auto simp: build_user_word_def dict_get_def Decimal_str_def split: sum.splits)
    have mem: "\<forall>d words_data. w \<in> set words_data \<longrightarrow>
        r \<in> set (new_user_words (import_word_progress now d uid words_data))"
    proof (intro allI impI)
      fix d words_data
      assume "w \<in> set words_data"
      with r(1) have "Inr r \<in> set (filter (\<lambda>x. \<not> isl x)
          (map (build_user_word now uid) words_data))"
        by (auto simp: image_iff intro: bexI [of _ w])
      then have "projr (Inr r :: error + user_word) \<in> projr ` set (filter (\<lambda>x. \<not> isl x)
          (map (build_user_word now uid) words_data))"
        by (rule imageI)
      then show "r \<in> set (new_user_words (import_word_progress now d uid words_data))"
        by (simp add: new_user_words_import)
    qed
    from r dflt mem show "\<exists>r. build_user_word now uid w = Inr r \<and> user_id r = uid \<and> word_id r = [] \<and>
            (tw_mastery_level w = None \<longrightarrow> mastery_level r = 0) \<and>
            (tw_ease_factor w = None \<longrightarrow> ease_factor r = 5 / 2) \<and>
            (tw_repetitions w = None \<longrightarrow> repetitions r = 0) \<and>
            (tw_seen_count w = None \<longrightarrow> seen_count r = 0) \<and>
            (tw_correct_count w = None \<longrightarrow> correct_count r = 0) \<and>
            (tw_last_review w = None \<longrightarrow> last_review r = None) \<and>
            (tw_next_review w = None \<longrightarrow> next_review r = None) \<and>
            (\<forall>d words_data. w \<in> set words_data \<longrightarrow>
               r \<in> set (new_user_words (import_word_progress now d uid words_data)))"
      by (intro exI [of _ r]) simp
  qed
qed

theorem entry_without_word_id_witness:
  "(\<exists>r. build_user_word 100 ''u1'' empty_entry = Inr r \<and> word_id r = [] \<and>
         mastery_level r = 0 \<and> ease_factor r = 5 / 2 \<and> repetitions r = 0 \<and>
         r \<in> set (new_user_words
               (import_word_progress 100 (example_db [] []) ''u1'' [empty_entry])))
   \<and> commit (import_word_progress 100 (example_db [] []) ''u1'' [empty_entry, empty_entry])
       = Inl IntegrityError"
proof -
  have wf: "well_formed_without_word_id empty_entry"
    by (simp add: well_formed_without_word_id_def converts_def dict_get_def empty_entry_def)
  have none: "tw_mastery_level empty_entry = None" "tw_ease_factor empty_entry = None"
    "tw_repetitions empty_entry = None"
    by (simp_all add: empty_entry_def)
  have two: "2 \<le> length (filter well_formed_without_word_id [empty_entry, empty_entry])"
    by (simp add: wf)
  from entry_without_word_id [of empty_entry 100 "''u1''"] wf none two show ?thesis
    by auto
qed

section \<open>Review selector\<close>

lemma review_query_sorted: "sorted (map review_order (review_query today d uid limit))"
  by (simp add: review_query_def take_map [symmetric] sorted_wrt_take)

lemma review_query_due:
  "r \<in> set (review_query today d uid limit) \<Longrightarrow> r \<in> set (user_words d) \<and> is_due today uid r"
  by (auto simp: review_query_def dest: in_set_takeD)

lemma review_order_le:
  "review_order a \<le> review_order b \<longleftrightarrow>
     mastery_level a < mastery_level b \<or>
     (mastery_level a = mastery_level b \<and>
      (case last_review a of None \<Rightarrow> True
       | Some x \<Rightarrow> (case last_review b of None \<Rightarrow> False | Some y \<Rightarrow> x \<le> y)))"
  by (auto simp: review_order_def split: option.splits)

lemmas review_defs =
  get_words_for_review_def review_query_def is_due_def review_order_def review_item_of_def
  example_word_def word_A_def word_B_def word_C_def word_D_def word_E_def example_db_def

text \<open>
  Claim C5: for every user and limit \<open>N\<close> the selector returns at most \<open>N\<close> items; they
  are taken from records of the user with \<open>mastery_level < 4\<close> whose \<open>next_review\<close> is
  absent or not after the current date; and they are ordered by \<open>mastery_level\<close>
  ascending, ties by \<open>last_review\<close> ascending with an absent \<open>last_review\<close> first. With
  \<open>A\<close> (mastery 1.0, last review 2024-01-01) and \<open>B\<close> (mastery 1.0, last review
  2024-02-01) both due, \<open>A\<close> precedes \<open>B\<close>.
\<close>

theorem review_selection:
  "length (get_words_for_review today d uid limit) \<le> limit
   \<and> get_words_for_review today d uid limit
       = map review_item_of (review_query today d uid limit)
   \<and> (\<forall>r\<in>set (review_query today d uid limit).
         r \<in> set (user_words d) \<and> user_id r = uid \<and> mastery_level r < 4 \<and>
         (case next_review r of None \<Rightarrow> True | Some nr \<Rightarrow> nr \<le> today))
   \<and> (\<forall>i j. i < j \<and> j < length (get_words_for_review today d uid limit) \<longrightarrow>
         ri_mastery_level (get_words_for_review today d uid limit ! i)
           < ri_mastery_level (get_words_for_review today d uid limit ! j)
         \<or> (ri_mastery_level (get_words_for_review today d uid limit ! i)
              = ri_mastery_level (get_words_for_review today d uid limit ! j)
            \<and> (case ri_last_review (get_words_for_review today d uid limit ! i) of
                 None \<Rightarrow> True
               | Some x \<Rightarrow>
                   (case ri_last_review (get_words_for_review today d uid limit ! j) of
                      None \<Rightarrow> False
                    | Some y \<Rightarrow> x \<le> y))))
   \<and> get_words_for_review (2024, 3, 1) (example_db [] [word_B, word_A]) ''u1'' 20
       = [review_item_of word_A, review_item_of word_B]"
proof -
  let ?q = "review_query today d uid limit"
  let ?g = "get_words_for_review today d uid limit"
  have g: "?g = map review_item_of ?q" by (simp add: get_words_for_review_def)
  have len: "length ?g \<le> limit" by (simp add: g review_query_def)
  have due: "\<forall>r\<in>set ?q. r \<in> set (user_words d) \<and> user_id r = uid \<and> mastery_level r < 4 \<and>
         (case next_review r of None \<Rightarrow> True | Some nr \<Rightarrow> nr \<le> today)"
    using review_query_due [of _ today d uid limit] by (auto simp: is_due_def)
  have ord: "ri_mastery_level (?g ! i) < ri_mastery_level (?g ! j)
         \<or> (ri_mastery_level (?g ! i) = ri_mastery_level (?g ! j)
            \<and> (case ri_last_review (?g ! i) of
                 None \<Rightarrow> True
               | Some x \<Rightarrow> (case ri_last_review (?g ! j) of None \<Rightarrow> False | Some y \<Rightarrow> x \<le> y)))"
    if "i < j" "j < length ?g" for i j
  proof -
    from that have ij: "i < j" "j < length ?q" "i < length ?q" by (simp_all add: g)
    from review_query_sorted [of today d uid limit] ij
    have "map review_order ?q ! i \<le> map review_order ?q ! j"
      by (intro sorted_nth_mono) simp_all
    with ij have "review_order (?q ! i) \<le> review_order (?q ! j)" by simp
    then show ?thesis
      unfolding review_order_le using ij
      by (auto simp: g review_item_of_def split: option.splits)
  qed
  have ex: "get_words_for_review (2024, 3, 1) (example_db [] [word_B, word_A]) ''u1'' 20
       = [review_item_of word_A, review_item_of word_B]"
    by (simp add: review_defs)
  from len g due ord ex show ?thesis by (simp only: simp_thms) blast
qed

text \<open>
  On the table \<open>[B, C, D, A, E]\<close> on 2024-03-01: \<open>C\<close> and \<open>D\<close> are never returned,
  the never reviewed \<open>E\<close> comes first, and a limit of 2 cuts the result after \<open>A\<close>.
\<close>

theorem review_selection_witness:
  "map ri_word_id (get_words_for_review (2024, 3, 1)
       (example_db [] [word_B, word_C, word_D, word_A, word_E]) ''u1'' 20) = [''E'', ''A'', ''B'']
   \<and> map ri_word_id (get_words_for_review (2024, 3, 1)
       (example_db [] [word_B, word_C, word_D, word_A, word_E]) ''u1'' 2) = [''E'', ''A'']
   \<and> length (get_words_for_review (2024, 3, 1)
       (example_db [] [word_B, word_C, word_D, word_A, word_E]) ''u1'' 2) \<le> 2
   \<and> list_all (\<lambda>r. mastery_level r < 4 \<and>
              (case next_review r of None \<Rightarrow> True | Some nr \<Rightarrow> nr \<le> (2024, 3, 1)))
       (review_query (2024, 3, 1)
          (example_db [] [word_B, word_C, word_D, word_A, word_E]) ''u1'' 2)"
proof -
  let ?d = "example_db [] [word_B, word_C, word_D, word_A, word_E]"
  have a: "map ri_word_id (get_words_for_review (2024, 3, 1) ?d ''u1'' 20) = [''E'', ''A'', ''B'']"
    by (simp add: review_defs)
  have b: "map ri_word_id (get_words_for_review (2024, 3, 1) ?d ''u1'' 2) = [''E'', ''A'']"
    by (simp add: review_defs)
  from review_selection [of "(2024, 3, 1)" ?d "''u1''" 2]
  have c: "length (get_words_for_review (2024, 3, 1) ?d ''u1'' 2) \<le> 2"
    and d: "\<forall>r\<in>set (review_query (2024, 3, 1) ?d ''u1'' 2).
         r \<in> set (user_words ?d) \<and> user_id r = ''u1'' \<and> mastery_level r < 4 \<and>
         (case next_review r of None \<Rightarrow> True | Some nr \<Rightarrow> nr \<le> (2024, 3, 1))"
    by blast+
  from d have "list_all (\<lambda>r. mastery_level r < 4 \<and>
              (case next_review r of None \<Rightarrow> True | Some nr \<Rightarrow> nr \<le> (2024, 3, 1)))
       (review_query (2024, 3, 1) ?d ''u1'' 2)"
    unfolding list_all_iff by blast
  with a b c show ?thesis by blast
qed

section \<open>Merge engine\<close>

subsection \<open>The loop\<close>

lemma sync_words_append:
  "sync_words now qr uid (xs @ ys) acc = sync_words now qr uid ys (sync_words now qr uid xs acc)"
proof (induction xs arbitrary: acc)
  case Nil
  show ?case by simp
next
  case (Cons x xs)
  obtain d cs n where acc: "acc = (d, cs, n)" by (cases acc)
  show ?case unfolding acc using Cons.IH
    by (simp split: sum.splits prod.splits)
qed


lemma sync_words_raise:
  "qr w \<Longrightarrow> sync_words now qr uid (w # ws) acc = sync_words now qr uid ws acc"
  by (cases acc) (simp add: sync_word_def)

lemma sync_word_no_raise:
  "\<not> qr w \<Longrightarrow> sync_word now qr d uid w = sync_word now (\<lambda>w. False) d uid w"
  by (simp add: sync_word_def)

lemma sync_words_filter:
  "sync_words now qr uid ws acc
     = sync_words now (\<lambda>w. False) uid (filter (\<lambda>w. \<not> qr w) ws) acc"
proof (induction ws arbitrary: acc)
  case Nil
  show ?case by simp
next
  case (Cons w ws)
  obtain d cs n where acc: "acc = (d, cs, n)" by (cases acc)
  show ?case
  proof (cases "qr w")
    case True
    then show ?thesis using Cons.IH by (simp add: sync_words_raise)
  next
    case False
    then show ?thesis unfolding acc using Cons.IH sync_word_no_raise [of qr w now d uid]
      by (simp split: sum.splits prod.splits)
  qed
qed

lemma sync_word_total: "\<exists>d' c. sync_word now (\<lambda>w. False) d uid w = Inr (d', c)"
  by (simp add: sync_word_def split: option.splits)

lemma sync_words_count:
  "snd (snd (sync_words now (\<lambda>w. False) uid ws (d, cs, n))) = n + length ws"
proof (induction ws arbitrary: d cs n)
  case Nil
  show ?case by simp
next
  case (Cons w ws)
  from sync_word_total [of now d uid w] obtain d' c where
    "sync_word now (\<lambda>w. False) d uid w = Inr (d', c)" by blast
  then show ?case using Cons.IH [of d' "cs @ c" "n + 1"] by simp
qed

lemma sync_user_progress_result:
  assumes "sync_user_progress today now qr d uid sd = Inr (d', r)"
  shows "updated_words r = snd (snd (sync_words now qr uid (words sd) (d, [], 0)))"
    and "conflicts r = fst (snd (sync_words now qr uid (words sd) (d, [], 0)))"
  using assms by (auto simp: sync_user_progress_def split: prod.splits sum.splits)

subsection \<open>Lookups after an entry\<close>



lemma is_user_word_client_wins [simp]:
  "is_user_word uid wid (client_wins now w e) = is_user_word uid wid e"
  by (simp add: is_user_word_def client_wins_def)





lemmas merge_defs =
  sync_word_def query_user_word_def is_user_word_def client_wins_def new_word_def
  differs_def conflict_of_def Decimal_str_def commit_def word_key_def
  example_entry_def words_only_def

subsection \<open>Conflict detection\<close>



subsection \<open>Fail-soft processing\<close>

text \<open>
  Claim C2: an entry whose processing raises is skipped and the loop goes on with the
  next entry; a skipped entry adds nothing to \<^verbatim>\<open>updated_words\<close> nor to the
  conflict list, so \<^verbatim>\<open>updated_words\<close> is at most the number of entries. In the
  model: the entries after a raising entry are processed from the session and the
  accumulators left by the entries before it; the whole operation returns what it returns
  on the batch without the raising entries; and \<^verbatim>\<open>updated_words\<close> is the number
  of entries that do not raise.
\<close>

theorem fail_soft_sync:
  "(query_raises w \<longrightarrow>
      sync_words now query_raises uid (pre @ w # post) acc
        = sync_words now query_raises uid post (sync_words now query_raises uid pre acc))
   \<and> sync_user_progress today now query_raises d uid sync_data
       = sync_user_progress today now (\<lambda>w. False) d uid
           (sync_data\<lparr>words := filter (\<lambda>w. \<not> query_raises w) (words sync_data)\<rparr>)
   \<and> (\<forall>d' r. sync_user_progress today now query_raises d uid sync_data = Inr (d', r) \<longrightarrow>
         updated_words r = length (filter (\<lambda>w. \<not> query_raises w) (words sync_data)) \<and>
         updated_words r \<le> length (words sync_data))"
proof -
  let ?ok = "filter (\<lambda>w. \<not> query_raises w) (words sync_data)"
  have skip: "sync_words now query_raises uid (pre @ w # post) acc
        = sync_words now query_raises uid post (sync_words now query_raises uid pre acc)"
    if "query_raises w"
    using that by (simp add: sync_words_append sync_words_raise)
  have loop: "sync_words now query_raises uid (words sync_data) (d, [], 0)
      = sync_words now (\<lambda>w. False) uid ?ok (d, [], 0)"
    by (rule sync_words_filter)
  have whole: "sync_user_progress today now query_raises d uid sync_data
       = sync_user_progress today now (\<lambda>w. False) d uid (sync_data\<lparr>words := ?ok\<rparr>)"
    by (simp add: sync_user_progress_def loop)
  have count: "updated_words r = length ?ok \<and> updated_words r \<le> length (words sync_data)"
    if "sync_user_progress today now query_raises d uid sync_data = Inr (d', r)" for d' r
  proof -
    from sync_user_progress_result(1) [OF that]
    have "updated_words r = snd (snd (sync_words now (\<lambda>w. False) uid ?ok (d, [], 0)))"
      by (simp add: loop)
    then have "updated_words r = length ?ok" by (simp add: sync_words_count)
    then show ?thesis by simp
  qed
  from skip whole count show ?thesis by blast
qed

text \<open>
  The lookup of \<open>A\<close> raises: the entry for \<open>A\<close>, which differs from the stored
  record, is neither counted nor reported, and the entry for \<open>B\<close> after it is inserted.
\<close>

theorem fail_soft_sync_witness:
  "sync_user_progress (2024, 6, 1) 100 (\<lambda>w. wp_word_id w = ''A'')
      (example_db [example_account 0 0] [word_A]) ''u1''
      (words_only [example_entry ''A'' 2 3, example_entry ''B'' 1 1])
   = Inr (example_db [example_account 0 0] [word_A, new_word 100 ''u1'' (example_entry ''B'' 1 1)],
          \<lparr>updated_words = 1, conflicts = [], sync_timestamp = 100\<rparr>)"
proof -
  let ?d = "example_db [example_account 0 0] [word_A]"
  let ?sd = "words_only [example_entry ''A'' 2 3, example_entry ''B'' 1 1]"
  have f: "?sd\<lparr>words := filter (\<lambda>w. \<not> wp_word_id w = ''A'') (words ?sd)\<rparr>
      = words_only [example_entry ''B'' 1 1]"
    by (simp add: words_only_def example_entry_def)
  have run: "sync_user_progress (2024, 6, 1) 100 (\<lambda>w. False) ?d ''u1''
      (words_only [example_entry ''B'' 1 1])
    = Inr (example_db [example_account 0 0]
            [word_A, new_word 100 ''u1'' (example_entry ''B'' 1 1)],
          \<lparr>updated_words = 1, conflicts = [], sync_timestamp = 100\<rparr>)"
    by (simp add: sync_user_progress_def merge_defs review_defs stats_defs)
  from fail_soft_sync [where today = "(2024, 6, 1)" and now = 100
      and query_raises = "\<lambda>w. wp_word_id w = ''A''" and d = ?d and uid = "''u1''"
      and sync_data = ?sd]
  have "sync_user_progress (2024, 6, 1) 100 (\<lambda>w. wp_word_id w = ''A'') ?d ''u1'' ?sd
      = sync_user_progress (2024, 6, 1) 100 (\<lambda>w. False) ?d ''u1''
          (?sd\<lparr>words := filter (\<lambda>w. \<not> wp_word_id w = ''A'') (words ?sd)\<rparr>)"
    by blast
  then show ?thesis unfolding f run .
qed

section \<open>Replaying a batch\<close>

subsection \<open>The rows after the first run\<close>






















subsection \<open>Idempotence\<close>




text \<open>
  Outside the amended claim: a \<open>mastery_level\<close> such as \<^verbatim>\<open>2.3\<close> is stored as
  \<^verbatim>\<open>Decimal("2.3")\<close>, and the replay compares this decimal with the binary float,
  which is a different number; the second run reports a conflict for the unchanged word.
\<close>

lemma replay_inexact_float:
  "sync_user_progress (2024, 6, 1) 100 (\<lambda>w. False)
      (example_db [example_account 0 0] []) ''u1'' inexact_batch
   = Inr (example_db [example_account 0 0]
            [(new_word 100 ''u1'' (example_entry ''B'' 0 1))\<lparr>mastery_level := 23 / 10\<rparr>],
          \<lparr>updated_words = 1, conflicts = [], sync_timestamp = 100\<rparr>)
   \<and> sync_user_progress (2024, 6, 1) 200 (\<lambda>w. False)
      (example_db [example_account 0 0]
            [(new_word 100 ''u1'' (example_entry ''B'' 0 1))\<lparr>mastery_level := 23 / 10\<rparr>])
      ''u1'' inexact_batch
   = Inr (example_db [example_account 0 0]
            [(new_word 200 ''u1'' (example_entry ''B'' 0 1))\<lparr>mastery_level := 23 / 10\<rparr>],
          \<lparr>updated_words = 1,
           conflicts = [\<lparr>c_word_id = ''B'', server_mastery = 23 / 10,
                         client_mastery = float_2_3, resolution = ''client_wins''\<rparr>],
           sync_timestamp = 200\<rparr>)"
  by (simp add: sync_user_progress_def inexact_batch_def float_2_3_def merge_defs
      review_defs stats_defs)

end
